theory Spec2Isabelle
  imports Main "HOL-Library.AList"
begin

section \<open>Strings of the host language\<close>

text \<open>
  The engine is JavaScript (\<^verbatim>\<open>src/unnamed/part_000\<close> is the TypeScript class
  \<^verbatim>\<open>BaseModel\<close>, \<^verbatim>\<open>src/example/bundle.js\<close> its compiled bundle with the
  inheritance resolver and the example model). A string is a list of characters; the
  string methods the source calls are written out below. The separators and patterns
  the source passes are never empty.
\<close>

fun starts_with :: "string \<Rightarrow> string \<Rightarrow> bool" where
  "starts_with [] s = True"
| "starts_with (p # ps) [] = False"
| "starts_with (p # ps) (c # cs) = (p = c \<and> starts_with ps cs)"

text \<open>\<^verbatim>\<open>s.indexOf(sub) >= 0\<close>, which is also \<^verbatim>\<open>~s.indexOf(sub)\<close> read as a truth value.\<close>

fun js_includes :: "string \<Rightarrow> string \<Rightarrow> bool" where
  "js_includes sub [] = (sub = [])"
| "js_includes sub (c # cs) = (starts_with sub (c # cs) \<or> js_includes sub cs)"

text \<open>\<^verbatim>\<open>s.split(sep)\<close>: \<open>cur\<close> is the piece being collected.\<close>

function split_from :: "string \<Rightarrow> string \<Rightarrow> string \<Rightarrow> string list" where
  "split_from sep cur [] = [cur]"
| "split_from sep cur (c # cs) =
     (if sep \<noteq> [] \<and> starts_with sep (c # cs)
      then cur # split_from sep [] (drop (length sep) (c # cs))
      else split_from sep (cur @ [c]) cs)"
  by pat_completeness auto
termination
  by (relation "measure (\<lambda>(sep, cur, s). length s)") auto

definition js_split :: "string \<Rightarrow> string \<Rightarrow> string list" where
  "js_split sep s = split_from sep [] s"

text \<open>\<^verbatim>\<open>xs.join(sep)\<close> on an array of strings.\<close>

fun js_join :: "string \<Rightarrow> string list \<Rightarrow> string" where
  "js_join sep [] = []"
| "js_join sep [x] = x"
| "js_join sep (x # y # ys) = x @ sep @ js_join sep (y # ys)"

text \<open>\<^verbatim>\<open>s.replace(pat, rep)\<close> with a string pattern: the first occurrence only.\<close>

fun replace_first :: "string \<Rightarrow> string \<Rightarrow> string \<Rightarrow> string" where
  "replace_first pat rep [] = (if pat = [] then rep else [])"
| "replace_first pat rep (c # cs) =
     (if starts_with pat (c # cs) then rep @ drop (length pat) (c # cs)
      else c # replace_first pat rep cs)"

text \<open>
  The class \<^verbatim>\<open>\s\<close> of a regular expression and of \<^verbatim>\<open>trim()\<close>, on 8-bit characters:
  tab, line feed, vertical tab, form feed, carriage return, space, no-break space.
\<close>

definition is_space :: "char \<Rightarrow> bool" where
  "is_space c = (c \<in> set [CHR 0x09, CHR 0x0A, CHR 0x0B, CHR 0x0C, CHR 0x0D, CHR '' '', CHR 0xA0])"

definition js_trim :: "string \<Rightarrow> string" where
  "js_trim s = rev (dropWhile is_space (rev (dropWhile is_space s)))"

text \<open>\<^verbatim>\<open>xs.slice(-1).join('')\<close> and \<^verbatim>\<open>xs.slice(1, -1).join('.')\<close> on the pieces of a split.\<close>

definition last_segment :: "string list \<Rightarrow> string" where
  "last_segment xs = (case rev xs of [] \<Rightarrow> [] | x # _ \<Rightarrow> x)"

definition middle_path :: "string list \<Rightarrow> string" where
  "middle_path xs = js_join ''.'' (butlast (tl xs))"

text \<open>Decimal numerals: the text of a number, and the value of a run of digits.\<close>

definition digit_char :: "nat \<Rightarrow> char" where
  "digit_char d = char_of (48 + d)"

function show_nat :: "nat \<Rightarrow> string" where
  "show_nat n = (if n < 10 then [digit_char n] else show_nat (n div 10) @ [digit_char (n mod 10)])"
  by pat_completeness auto
termination
  by (relation "measure id") auto

definition show_int :: "int \<Rightarrow> string" where
  "show_int i = (if i < 0 then CHR ''-'' # show_nat (nat (- i)) else show_nat (nat i))"

definition is_digit :: "char \<Rightarrow> bool" where
  "is_digit c = (48 \<le> (of_char c :: nat) \<and> (of_char c :: nat) \<le> 57)"

definition digits_value :: "string \<Rightarrow> nat" where
  "digits_value s = foldl (\<lambda>acc c. 10 * acc + ((of_char c :: nat) - 48)) 0 s"

text \<open>
  A property key that is an array index (\<^verbatim>\<open>"0"\<close>, \<^verbatim>\<open>"17"\<close>; no sign, no leading
  zero, below \<open>2 ^ 32 - 1\<close>).
\<close>

definition array_index :: "string \<Rightarrow> nat option" where
  "array_index k =
     (if k = [] then None
      else if \<not> list_all is_digit k then None
      else if hd k = CHR ''0'' \<and> tl k \<noteq> [] then None
      else if digits_value k < 4294967295 then Some (digits_value k)
      else None)"

section \<open>Values\<close>

text \<open>
  The values the engine moves around: what a data source holds, what \<^verbatim>\<open>JSON.parse\<close>
  returns, what processors and modifiers take and give. Numbers are the integers and
  \<^verbatim>\<open>NaN\<close>; an object is the list of its own properties in creation order (keys
  distinct). Property lookup sees own data properties, the \<^verbatim>\<open>length\<close> and the
  elements of arrays and strings; what a data value inherits from its prototype is
  not modelled (the two properties that the engine itself reads of a modifier's result,
  \<^verbatim>\<open>value\<close> and \<^verbatim>\<open>break\<close>, are inherited by no value).

  Two kinds of value are no data and come only from a member of \<^verbatim>\<open>Object.prototype\<close>
  that a chain token happens to name (see below): \<open>Boxed v\<close> is the wrapper object
  \<^verbatim>\<open>Object(v)\<close> of a primitive \<open>v\<close>, and \<open>Native t\<close> is a function or an object of
  the engine itself, \<open>t\<close> being the text the host prints for it (for a registered
  function, whose source the model does not hold, the key it is registered under).
  Both are truthy. The engine reads no property of a \<open>Native\<close> value and never asks
  for its \<^verbatim>\<open>typeof\<close>; the model gives it no properties.
\<close>

datatype jsval =
    Undefined
  | Null
  | Bool bool
  | Num int
  | NaN
  | Str string
  | Arr "jsval list"
  | Obj "(string \<times> jsval) list"
  | Boxed jsval
  | Native string

text \<open>
  What is thrown: the host's TypeError and SyntaxError, the RangeError of a host whose
  call stack is full, and whatever a registered function throws.
\<close>

datatype error = TypeError | SyntaxError | RangeError | Thrown string

text \<open>The truth value of \<^verbatim>\<open>if (v)\<close>, \<^verbatim>\<open>!v\<close> and \<^verbatim>\<open>v || w\<close>.\<close>

fun truthy :: "jsval \<Rightarrow> bool" where
  "truthy Undefined = False"
| "truthy Null = False"
| "truthy (Bool b) = b"
| "truthy (Num n) = (n \<noteq> 0)"
| "truthy NaN = False"
| "truthy (Str s) = (s \<noteq> [])"
| "truthy (Arr xs) = True"
| "truthy (Obj ps) = True"
| "truthy (Boxed v) = True"
| "truthy (Native t) = True"

definition js_or :: "jsval \<Rightarrow> jsval \<Rightarrow> jsval" where
  "js_or a b = (if truthy a then a else b)"

text \<open>\<^verbatim>\<open>o[k]\<close>: reading a property of \<^verbatim>\<open>undefined\<close> or \<^verbatim>\<open>null\<close> throws a TypeError.\<close>

fun get_prop :: "jsval \<Rightarrow> string \<Rightarrow> error + jsval" where
  "get_prop Undefined k = Inl TypeError"
| "get_prop Null k = Inl TypeError"
| "get_prop (Obj ps) k = Inr (case map_of ps k of Some v \<Rightarrow> v | None \<Rightarrow> Undefined)"
| "get_prop (Arr xs) k =
     Inr (if k = ''length'' then Num (int (length xs))
          else (case array_index k of
                  Some i \<Rightarrow> if i < length xs then xs ! i else Undefined
                | None \<Rightarrow> Undefined))"
| "get_prop (Str s) k =
     Inr (if k = ''length'' then Num (int (length s))
          else (case array_index k of
                  Some i \<Rightarrow> if i < length s then Str [s ! i] else Undefined
                | None \<Rightarrow> Undefined))"
| "get_prop (Bool b) k = Inr Undefined"
| "get_prop (Num n) k = Inr Undefined"
| "get_prop NaN k = Inr Undefined"
| "get_prop (Boxed v) k = (case v of Str s \<Rightarrow> get_prop (Str s) k | _ \<Rightarrow> Inr Undefined)"
| "get_prop (Native t) k = Inr Undefined"

text \<open>
  \<^verbatim>\<open>'' + v\<close> and the element texts of \<^verbatim>\<open>join\<close>: in a join, \<^verbatim>\<open>undefined\<close> and
  \<^verbatim>\<open>null\<close> give the empty text.
\<close>

fun js_to_string :: "jsval \<Rightarrow> string" where
  "js_to_string Undefined = ''undefined''"
| "js_to_string Null = ''null''"
| "js_to_string (Bool b) = (if b then ''true'' else ''false'')"
| "js_to_string (Num n) = show_int n"
| "js_to_string NaN = ''NaN''"
| "js_to_string (Str s) = s"
| "js_to_string (Arr xs) =
     js_join '','' (map (\<lambda>x. if x = Undefined \<or> x = Null then [] else js_to_string x) xs)"
| "js_to_string (Obj ps) = ''[object Object]''"
| "js_to_string (Boxed v) = js_to_string v"
| "js_to_string (Native t) = t"

definition join_text :: "jsval \<Rightarrow> string" where
  "join_text x = (if x = Undefined \<or> x = Null then [] else js_to_string x)"

text \<open>
  \<^verbatim>\<open>a === b\<close> where \<open>a\<close> is an element of a freshly parsed array: an object or an
  array is then identical to nothing else, and \<^verbatim>\<open>NaN\<close> equals nothing.
\<close>

fun strict_eq :: "jsval \<Rightarrow> jsval \<Rightarrow> bool" where
  "strict_eq Undefined b = (b = Undefined)"
| "strict_eq Null b = (b = Null)"
| "strict_eq (Bool x) b = (b = Bool x)"
| "strict_eq (Num x) b = (b = Num x)"
| "strict_eq (Str x) b = (b = Str x)"
| "strict_eq NaN b = False"
| "strict_eq (Arr xs) b = False"
| "strict_eq (Obj ps) b = False"
| "strict_eq (Boxed v) b = False"
| "strict_eq (Native t) b = False"

text \<open>
  \<^verbatim>\<open>fromDot(obj, path)\<close> of \<^verbatim>\<open>misc\<close> (bundle.js, lines 17-21): an empty path gives
  the object itself; otherwise the segments are followed while the current value has
  \<^verbatim>\<open>typeof\<close> \<^verbatim>\<open>'object'\<close>, which \<^verbatim>\<open>null\<close> has too, so that a segment read on
  \<^verbatim>\<open>null\<close> throws.
\<close>

fun typeof_object :: "jsval \<Rightarrow> bool" where
  "typeof_object Null = True"
| "typeof_object (Arr xs) = True"
| "typeof_object (Obj ps) = True"
| "typeof_object (Boxed v) = True"
| "typeof_object v = False"

fun fromDot_reduce :: "jsval \<Rightarrow> string list \<Rightarrow> error + jsval" where
  "fromDot_reduce o' [] = Inr o'"
| "fromDot_reduce o' (i # rest) =
     (if typeof_object o'
      then (case get_prop o' i of Inl e \<Rightarrow> Inl e | Inr v \<Rightarrow> fromDot_reduce v rest)
      else fromDot_reduce o' rest)"

definition fromDot :: "jsval \<Rightarrow> string \<Rightarrow> error + jsval" where
  "fromDot obj path = (if path = [] then Inr obj else fromDot_reduce obj (js_split ''.'' path))"

section \<open>The host and the model\<close>

text \<open>
  Two functions of the host are called by the engine and are not part of the
  repository: \<^verbatim>\<open>JSON.parse\<close> (a SyntaxError on a text that is not JSON) and the
  evaluation of a source text by \<^verbatim>\<open>Function\<close>. They are parameters of the
  functions that call them.
\<close>

type_synonym json_parser = "string \<Rightarrow> error + jsval"
type_synonym js_evaluator = "string \<Rightarrow> error + jsval"

type_synonym processor = "jsval \<Rightarrow> error + jsval"
type_synonym modifier = "jsval \<Rightarrow> jsval \<Rightarrow> error + jsval"

text \<open>
  \<^verbatim>\<open>class Container\<close> (bundle.js, lines 23-42): \<open>fields'\<close> (its \<^verbatim>\<open>fields\<close>) maps a field-spec key to
  its processor-spec string, in creation order.
\<close>

record container =
  name :: string
  fields' :: "(string \<times> string) list"
  data :: jsval

text \<open>
  \<^verbatim>\<open>class BaseModel\<close>. The fields \<open>processors\<close>, \<open>modifiers\<close>,
  \<open>described_containers\<close> and \<open>containers\<close> hold the own properties of the four
  registry objects: what has been registered under a name. \<open>this_view\<close> is the model object as
  property reads see it (\<^verbatim>\<open>this\<close> in \<^verbatim>\<open>fromDot(this, path)\<close>): what a subclass
  adds to it (the getter \<^verbatim>\<open>isMine\<close> of the example) and the \<^verbatim>\<open>$name\<close> aliases
  that \<^verbatim>\<open>setProxy\<close> writes.
\<close>

record model =
  processors :: "string \<rightharpoonup> processor"
  modifiers :: "string \<rightharpoonup> modifier"
  described_containers :: "string \<rightharpoonup> (string \<times> string) list"
  containers :: "string \<rightharpoonup> container"
  parent :: jsval
  this_view :: "(string \<times> jsval) list"

subsection \<open>What a registry inherits\<close>

text \<open>
  The registries are created as \<^verbatim>\<open>{}\<close>, so a read \<^verbatim>\<open>this.processors[name]\<close> that
  finds no own property goes on to \<^verbatim>\<open>Object.prototype\<close> of the host and finds its
  twelve members there: eleven functions and the accessor \<^verbatim>\<open>__proto__\<close>, whose value
  is \<^verbatim>\<open>Object.prototype\<close> itself. All twelve are truthy. The result of a read is an
  own property, an inherited member, or nothing (\<^verbatim>\<open>undefined\<close>).
\<close>

definition Object_prototype_names :: "string list" where
  "Object_prototype_names =
     [''constructor'', ''__defineGetter__'', ''__defineSetter__'', ''hasOwnProperty'',
      ''__lookupGetter__'', ''__lookupSetter__'', ''isPrototypeOf'', ''propertyIsEnumerable'',
      ''toString'', ''valueOf'', ''__proto__'', ''toLocaleString'']"

datatype 'a member = Own 'a | Inherited | Absent

text \<open>\<^verbatim>\<open>Object(v)\<close>, the call of the member \<^verbatim>\<open>constructor\<close>.\<close>

fun to_object :: "jsval \<Rightarrow> jsval" where
  "to_object Undefined = Obj []"
| "to_object Null = Obj []"
| "to_object (Bool b) = Boxed (Bool b)"
| "to_object (Num n) = Boxed (Num n)"
| "to_object NaN = Boxed NaN"
| "to_object (Str s) = Boxed (Str s)"
| "to_object v = v"

text \<open>
  The registry object on which an inherited member is called, as far as the members
  look at it: \<open>has_own\<close> tells its own keys, \<open>own_toString\<close> is the result of calling
  its own property \<^verbatim>\<open>toString\<close> without arguments where one is registered, and
  \<open>as_value\<close> is the object as a value.
\<close>

record receiver =
  has_own :: "string \<Rightarrow> bool"
  own_toString :: "(error + jsval) option"
  as_value :: jsval

text \<open>
  The call \<^verbatim>\<open>registry[nm](...args)\<close> of an inherited member. \<^verbatim>\<open>toLocaleString\<close>
  calls \<^verbatim>\<open>this.toString()\<close>; \<^verbatim>\<open>valueOf\<close> returns the registry;
  \<^verbatim>\<open>hasOwnProperty\<close> and \<^verbatim>\<open>propertyIsEnumerable\<close> test the text of the first
  argument as a key; \<^verbatim>\<open>isPrototypeOf\<close> is false, as no value has a registry in its
  prototype chain; \<^verbatim>\<open>__lookupGetter__\<close> and \<^verbatim>\<open>__lookupSetter__\<close> find an accessor
  only for the key \<^verbatim>\<open>__proto__\<close>; \<^verbatim>\<open>__defineGetter__\<close> and
  \<^verbatim>\<open>__defineSetter__\<close> throw, their second argument being absent or a parsed
  parameter and never a function; the value of \<^verbatim>\<open>__proto__\<close> is no function, and the
  call of it throws.
\<close>

definition Object_prototype_call :: "receiver \<Rightarrow> string \<Rightarrow> jsval list \<Rightarrow> error + jsval" where
  "Object_prototype_call r nm args =
     (let arg0 = (case args of [] \<Rightarrow> Undefined | a # _ \<Rightarrow> a);
          key = js_to_string arg0
      in if nm = ''constructor'' then Inr (to_object arg0)
         else if nm = ''toString'' then Inr (Str ''[object Object]'')
         else if nm = ''toLocaleString'' then
           (case own_toString r of Some res \<Rightarrow> res | None \<Rightarrow> Inr (Str ''[object Object]''))
         else if nm = ''valueOf'' then Inr (as_value r)
         else if nm = ''hasOwnProperty'' \<or> nm = ''propertyIsEnumerable'' then Inr (Bool (has_own r key))
         else if nm = ''isPrototypeOf'' then Inr (Bool False)
         else if nm = ''__lookupGetter__'' then
           Inr (if has_own r key then Undefined
                else if key = ''__proto__'' then Native ''function get __proto__() { [native code] }''
                else Undefined)
         else if nm = ''__lookupSetter__'' then
           Inr (if has_own r key then Undefined
                else if key = ''__proto__'' then Native ''function set __proto__() { [native code] }''
                else Undefined)
         else Inl TypeError)"

definition is_registered :: "(string \<rightharpoonup> 'f) \<Rightarrow> string \<Rightarrow> bool" where
  "is_registered reg k = (case reg k of Some f \<Rightarrow> True | None \<Rightarrow> False)"

text \<open>
  \<^verbatim>\<open>this.processors[name]\<close> as a function to call, \<open>None\<close> where the read gives
  \<^verbatim>\<open>undefined\<close>. As a value, the registry of processors is a \<open>Native\<close> object.
\<close>

definition processor_lookup :: "model \<Rightarrow> string \<Rightarrow> processor option" where
  "processor_lookup m nm =
     (case processors m nm of
        Some f \<Rightarrow> Some f
      | None \<Rightarrow>
          if nm \<in> set Object_prototype_names
          then Some (\<lambda>d. Object_prototype_call
                 \<lparr> has_own = is_registered (processors m),
                   own_toString = map_option (\<lambda>f. f Undefined) (processors m ''toString''),
                   as_value = Native ''[object Object]'' \<rparr> nm [d])
          else None)"

text \<open>
  \<^verbatim>\<open>this.modifiers[mod_name]\<close> likewise. The engine reads only \<^verbatim>\<open>value\<close> and
  \<^verbatim>\<open>break\<close> of what a modifier returns, so the registry of modifiers, which
  \<^verbatim>\<open>valueOf\<close> returns, is given by these two properties: each is the function
  registered under that name, if there is one.
\<close>

definition modifiers_as_result :: "model \<Rightarrow> jsval" where
  "modifiers_as_result m =
     Obj (filter (\<lambda>(k, v). is_registered (modifiers m) k)
            [(''value'', Native ''value''), (''break'', Native ''break'')])"

definition modifier_lookup :: "model \<Rightarrow> string \<Rightarrow> modifier option" where
  "modifier_lookup m nm =
     (case modifiers m nm of
        Some f \<Rightarrow> Some f
      | None \<Rightarrow>
          if nm \<in> set Object_prototype_names
          then Some (\<lambda>acc params. Object_prototype_call
                 \<lparr> has_own = is_registered (modifiers m),
                   own_toString = map_option (\<lambda>f. f Undefined Undefined) (modifiers m ''toString''),
                   as_value = modifiers_as_result m \<rparr> nm [acc, params])
          else None)"

text \<open>
  \<^verbatim>\<open>getContainer\<close> (part_000, lines 92-94), \<^verbatim>\<open>this.containers[name]\<close>: a
  container, or an inherited member, which is truthy and has neither \<^verbatim>\<open>fields\<close> nor
  \<^verbatim>\<open>data\<close>, or \<^verbatim>\<open>undefined\<close>.
\<close>

definition getContainer :: "model \<Rightarrow> string \<Rightarrow> container member" where
  "getContainer m nm =
     (case containers m nm of
        Some c \<Rightarrow> Own c
      | None \<Rightarrow> if nm \<in> set Object_prototype_names then Inherited else Absent)"

section \<open>Processor chains\<close>

text \<open>\<^verbatim>\<open>proceedProcessor\<close> (part_000, lines 101-106).\<close>

definition proceedProcessor :: "model \<Rightarrow> string \<Rightarrow> jsval \<Rightarrow> error + jsval" where
  "proceedProcessor m nm d =
     (case processor_lookup m nm of Some f \<Rightarrow> f d | None \<Rightarrow> Inr Undefined)"

text \<open>
  \<^verbatim>\<open>createProcessorCallie\<close> (part_000, lines 61-86). The state of the \<^verbatim>\<open>for\<close> loop
  is the pair \<open>(is_stop, acc)\<close>. \<open>chain_step\<close> is the loop body on one token: it
  throws, or leaves the loop by \<^verbatim>\<open>break\<close>, or goes on to the next token.
  \<^verbatim>\<open>JSON.parse\<close> runs on the second piece of the token split at \<^verbatim>\<open>:\<close>, before the
  modifier is looked up.
\<close>

datatype loop_ctl = Continue "jsval \<times> jsval" | Break jsval

definition chain_step :: "json_parser \<Rightarrow> model \<Rightarrow> string \<Rightarrow> jsval \<times> jsval \<Rightarrow> error + loop_ctl" where
  "chain_step JSON_parse m tok st =
     (case st of (is_stop, acc) \<Rightarrow>
        if CHR '':'' \<in> set tok then
          (case js_split '':'' tok of
             mod_name # params_text # others \<Rightarrow>
               (case JSON_parse params_text of
                  Inl e \<Rightarrow> Inl e
                | Inr mod_params \<Rightarrow>
                    (case modifier_lookup m mod_name of
                       Some f \<Rightarrow>
                         (case f acc mod_params of
                            Inl e \<Rightarrow> Inl e
                          | Inr mod_result \<Rightarrow>
                              (case get_prop mod_result ''value'' of
                                 Inl e \<Rightarrow> Inl e
                               | Inr v \<Rightarrow>
                                   (case get_prop mod_result ''break'' of
                                      Inl e \<Rightarrow> Inl e
                                    | Inr b \<Rightarrow>
                                        (let acc' = js_or v acc; is_stop' = js_or b is_stop
                                         in if truthy is_stop' then Inr (Break acc')
                                            else Inr (Continue (is_stop', acc'))))))
                     | None \<Rightarrow>
                         if truthy is_stop then Inr (Break acc)
                         else Inr (Continue (is_stop, acc))))
           | _ \<Rightarrow> Inl SyntaxError)
        else
          (case proceedProcessor m tok acc of
             Inl e \<Rightarrow> Inl e
           | Inr a \<Rightarrow> Inr (Continue (is_stop, a))))"

fun chain_run :: "json_parser \<Rightarrow> model \<Rightarrow> string list \<Rightarrow> jsval \<times> jsval \<Rightarrow> error + loop_ctl" where
  "chain_run JSON_parse m [] st = Inr (Continue st)"
| "chain_run JSON_parse m (tok # rest) st =
     (case chain_step JSON_parse m tok st of
        Inl e \<Rightarrow> Inl e
      | Inr (Break acc) \<Rightarrow> Inr (Break acc)
      | Inr (Continue st') \<Rightarrow> chain_run JSON_parse m rest st')"

text \<open>\<open>callie\<close> is the function that \<^verbatim>\<open>createProcessorCallie\<close> returns: \<^verbatim>\<open>return acc\<close>.\<close>

definition callie :: "json_parser \<Rightarrow> model \<Rightarrow> string list \<Rightarrow> jsval \<Rightarrow> error + jsval" where
  "callie JSON_parse m names_ar d =
     (case chain_run JSON_parse m names_ar (Bool False, d) of
        Inl e \<Rightarrow> Inl e
      | Inr (Break acc) \<Rightarrow> Inr acc
      | Inr (Continue (is_stop, acc)) \<Rightarrow> Inr acc)"

text \<open>
  The chain string may be \<^verbatim>\<open>undefined\<close> (\<open>None\<close>), which \<^verbatim>\<open>getProcessor\<close> can
  return: \<^verbatim>\<open>names.split\<close> then throws a TypeError.
\<close>

definition createProcessorCallie :: "json_parser \<Rightarrow> model \<Rightarrow> string option \<Rightarrow> jsval \<Rightarrow> error + jsval" where
  "createProcessorCallie JSON_parse m names d =
     (case names of
        None \<Rightarrow> Inl TypeError
      | Some s \<Rightarrow> callie JSON_parse m (js_split ''.'' s) d)"

section \<open>Indirect processor names\<close>

text \<open>
  \<^verbatim>\<open>getProcessor\<close> (part_000, lines 137-154). The result is \<open>Inr None\<close> where the
  source falls off the end of the function and returns \<^verbatim>\<open>undefined\<close>; it is a
  TypeError where \<^verbatim>\<open>container.fields[property_name]\<close> is \<^verbatim>\<open>undefined\<close> and
  \<^verbatim>\<open>indexOf\<close> is read on it, or is an inherited member, which has no \<^verbatim>\<open>indexOf\<close>
  to call, and where the container itself is an inherited member, whose \<^verbatim>\<open>fields\<close>
  is \<^verbatim>\<open>undefined\<close>. The recursion has no bound in the source: the function is
  partial, and \<open>None\<close> at the outer level says that the call does not return.
\<close>

definition first_segment :: "string list \<Rightarrow> string" where
  "first_segment xs = (case xs of [] \<Rightarrow> ''undefined'' | x # _ \<Rightarrow> x)"

partial_function (option) getProcessor :: "model \<Rightarrow> string \<Rightarrow> (error + string option) option" where
  "getProcessor m nm =
     (if CHR ''@'' \<in> set nm then
        (let splitted_keys = js_split ''.'' (replace_first ''@'' [] nm);
             container_name = first_segment splitted_keys
         in case getContainer m container_name of
              Own container \<Rightarrow>
                (let property_name = last_segment splitted_keys
                 in case map_of (fields' container) property_name of
                      None \<Rightarrow> Some (Inl TypeError)
                    | Some processor_name \<Rightarrow>
                        if CHR ''@'' \<in> set processor_name then getProcessor m processor_name
                        else Some (Inr (Some processor_name)))
            | Inherited \<Rightarrow> Some (Inl TypeError)
            | Absent \<Rightarrow> Some (Inr None))
      else Some (Inr (Some nm)))"

declare getProcessor.simps [code]


section \<open>Containers and inheritance\<close>

text \<open>
  \<^verbatim>\<open>Object.assign(target, source)\<close> sets the properties of the source on the target
  one after the other: a key the target has keeps its place and takes the new value, a
  new key goes to the end. \<^verbatim>\<open>Object.assign({}, a, b)\<close> is
  \<open>obj_assign (obj_assign [] a) b\<close>.
\<close>

definition obj_assign :: "('k \<times> 'v) list \<Rightarrow> ('k \<times> 'v) list \<Rightarrow> ('k \<times> 'v) list" where
  "obj_assign target source = fold (\<lambda>(k, v). AList.update k v) source target"

text \<open>
  \<^verbatim>\<open>Object.keys(o)\<close>: the array-index keys in ascending order, then the other keys
  in creation order.
\<close>

definition own_keys :: "(string \<times> 'v) list \<Rightarrow> string list" where
  "own_keys ps =
     (let ks = map fst ps
      in sort_key digits_value (filter (\<lambda>k. array_index k \<noteq> None) ks)
         @ filter (\<lambda>k. array_index k = None) ks)"

text \<open>The diagnostics channel: the calls of \<^verbatim>\<open>console.error\<close>, in order.\<close>

datatype diag =
    SetProxy_container_not_found string
  | GetFieldFromContainer_not_found string
  | GetFields_no_field_names
  | GetFields_field_not_found string

text \<open>
  The constructor of \<^verbatim>\<open>Container\<close>: \<^verbatim>\<open>new Proxy(source, {})\<close> throws a TypeError
  on a source that is truthy and not an object.
\<close>

fun is_object :: "jsval \<Rightarrow> bool" where
  "is_object (Arr xs) = True"
| "is_object (Obj ps) = True"
| "is_object (Boxed v) = True"
| "is_object (Native t) = True"
| "is_object v = False"

definition new_Container :: "string \<Rightarrow> (string \<times> string) list \<Rightarrow> jsval \<Rightarrow> error + container" where
  "new_Container nm flds source =
     (if truthy source
      then (if is_object source then Inr \<lparr> name = nm, fields' = flds, data = source \<rparr>
            else Inl TypeError)
      else Inr \<lparr> name = nm, fields' = flds, data = Obj [] \<rparr>)"

text \<open>
  \<^verbatim>\<open>setProxy\<close> (part_000, lines 44-55). For an inherited member the \<^verbatim>\<open>data\<close>
  read is \<^verbatim>\<open>undefined\<close>, on which \<^verbatim>\<open>new Proxy\<close> throws.
\<close>

definition setProxy :: "model \<Rightarrow> string \<Rightarrow> diag list \<times> (error + model)" where
  "setProxy m container_name =
     (case getContainer m container_name of
        Own c \<Rightarrow>
          if is_object (data c)
          then ([], Inr (m\<lparr> this_view := AList.update (''$'' @ container_name) (data c) (this_view m) \<rparr>))
          else ([], Inl TypeError)
      | Inherited \<Rightarrow> ([], Inl TypeError)
      | Absent \<Rightarrow> ([SetProxy_container_not_found container_name], Inr m))"

text \<open>
  \<^verbatim>\<open>getExtendedFields\<close> (bundle.js, lines 176-203). \<open>extends_clause\<close> is its reading
  of the declared name: the name before \<^verbatim>\<open>' extends '\<close> and the template names after
  it (the pieces of a bracketed list, or the one name), white space removed.
  \<open>extend_with\<close> is the step both branches of the source take for one template name;
  a name that finds an inherited member instead of a template copies nothing, as the
  member has no enumerable property of its own. \<open>Inr None\<close> is the \<^verbatim>\<open>false\<close> of a
  name without the clause.
\<close>

definition extends_clause :: "string \<Rightarrow> error + (string \<times> string list) option" where
  "extends_clause nm =
     (if js_includes '' extends '' nm then
        (case map (filter (\<lambda>c. \<not> is_space c)) (js_split '' extends '' nm) of
           n0 # n1 # others \<Rightarrow>
             Inr (Some (n0,
               if CHR ''['' \<in> set n1
               then js_split '','' (filter (\<lambda>c. c \<notin> set [CHR ''['', CHR '']'']) n1)
               else [n1]))
         | _ \<Rightarrow> Inl TypeError)
      else Inr None)"

definition extend_with :: "model \<Rightarrow> string \<Rightarrow> (string \<times> string) list \<Rightarrow> (string \<times> string) list" where
  "extend_with m el extended =
     (case described_containers m el of
        Some t \<Rightarrow> obj_assign (obj_assign [] extended) t
      | None \<Rightarrow> extended)"

definition getExtendedFields :: "model \<Rightarrow> string \<Rightarrow> error + (string \<times> (string \<times> string) list) option" where
  "getExtendedFields m nm =
     (case extends_clause nm of
        Inl e \<Rightarrow> Inl e
      | Inr None \<Rightarrow> Inr None
      | Inr (Some (n0, extends_arr)) \<Rightarrow> Inr (Some (n0, fold (extend_with m) extends_arr [])))"

text \<open>\<^verbatim>\<open>describeContainer\<close> (bundle.js, lines 210-219).\<close>

definition describeContainer :: "model \<Rightarrow> string \<Rightarrow> (string \<times> string) list \<Rightarrow> error + model" where
  "describeContainer m full_name flds =
     (case getExtendedFields m full_name of
        Inl e \<Rightarrow> Inl e
      | Inr None \<Rightarrow> Inr (m\<lparr> described_containers := (described_containers m)(full_name \<mapsto> flds) \<rparr>)
      | Inr (Some (nm, extended)) \<Rightarrow>
          Inr (m\<lparr> described_containers :=
                    (described_containers m)(nm \<mapsto> obj_assign (obj_assign [] flds) extended) \<rparr>))"

text \<open>
  \<^verbatim>\<open>addContainer\<close> (bundle.js, lines 61-83), called with the name, the fields and the
  source, or with one object that holds the three.
\<close>

definition addContainer :: "model \<Rightarrow> string \<Rightarrow> (string \<times> string) list \<Rightarrow> jsval \<Rightarrow> diag list \<times> (error + model)" where
  "addContainer m full_name flds source =
     (case getExtendedFields m full_name of
        Inl e \<Rightarrow> ([], Inl e)
      | Inr extended_fields \<Rightarrow>
          (let nm = (case extended_fields of Some (n, extended) \<Rightarrow> n | None \<Rightarrow> full_name);
               flds' = (case extended_fields of
                          Some (n, extended) \<Rightarrow> obj_assign (obj_assign [] flds) extended
                        | None \<Rightarrow> flds)
           in case new_Container nm flds' source of
                Inl e \<Rightarrow> ([], Inl e)
              | Inr new_container \<Rightarrow>
                  setProxy (m\<lparr> containers := (containers m)(nm \<mapsto> new_container) \<rparr>) nm))"

section \<open>Field extraction\<close>

text \<open>\<^verbatim>\<open>getFieldFromContainer\<close> (part_000, lines 215-222).\<close>

definition getFieldFromContainer :: "model \<Rightarrow> string \<Rightarrow> string \<Rightarrow> diag list \<times> (error + jsval)" where
  "getFieldFromContainer m container_name field =
     (let context_group = (case getContainer m container_name of
                             Own c \<Rightarrow> data c | Inherited \<Rightarrow> Undefined | Absent \<Rightarrow> Null)
      in (if truthy context_group then [] else [GetFieldFromContainer_not_found container_name],
          fromDot context_group field))"

text \<open>\<^verbatim>\<open>fromDot(root, model_path)[property_name]\<close>.\<close>

definition read_at :: "error + jsval \<Rightarrow> string \<Rightarrow> error + jsval" where
  "read_at root property_name =
     (case root of Inl e \<Rightarrow> Inl e | Inr v \<Rightarrow> get_prop v property_name)"

text \<open>
  \<^verbatim>\<open>parseCondition\<close> (part_000, lines 302-326). \<open>condition_item\<close> is the loop body on
  one piece of the expression: the value that replaces the piece, or the piece itself.
  The three tests of the source compare the first segment with \<^verbatim>\<open>'^'\<close>, \<^verbatim>\<open>'&'\<close>
  and \<^verbatim>\<open>'@'\<close>; at most one holds, and the container name of the third is then the
  empty text. \<open>condition_items\<close> is the loop; \<open>parseCondition\<close> joins the items and
  hands \<^verbatim>\<open>'return ' + expression\<close> to the host.
\<close>

definition condition_item :: "model \<Rightarrow> string \<Rightarrow> diag list \<times> (error + jsval)" where
  "condition_item m item =
     (let splitted_keys = js_split ''.'' item;
          model_path = middle_path splitted_keys;
          property_name = last_segment splitted_keys
      in if first_segment splitted_keys = ''^''
         then ([], read_at (fromDot (parent m) model_path) property_name)
         else if first_segment splitted_keys = ''&''
         then ([], read_at (fromDot (Obj (this_view m)) model_path) property_name)
         else if first_segment splitted_keys = ''@''
         then (case getFieldFromContainer m (replace_first ''@'' [] (first_segment splitted_keys)) model_path of
                 (ds, root) \<Rightarrow> (ds, read_at root property_name))
         else ([], Inr (Str item)))"

fun condition_items :: "model \<Rightarrow> string list \<Rightarrow> diag list \<times> (error + jsval list)" where
  "condition_items m [] = ([], Inr [])"
| "condition_items m (item # rest) =
     (case condition_item m item of
        (ds, Inl e) \<Rightarrow> (ds, Inl e)
      | (ds, Inr v) \<Rightarrow>
          (case condition_items m rest of
             (ds', Inl e) \<Rightarrow> (ds @ ds', Inl e)
           | (ds', Inr vs) \<Rightarrow> (ds @ ds', Inr (v # vs))))"

definition parseCondition :: "js_evaluator \<Rightarrow> model \<Rightarrow> string \<Rightarrow> diag list \<times> (error + jsval)" where
  "parseCondition Function_eval m expression =
     (case condition_items m (js_split '' '' expression) of
        (ds, Inl e) \<Rightarrow> (ds, Inl e)
      | (ds, Inr items) \<Rightarrow>
          (ds, Function_eval (''return '' @ js_join '' '' (map join_text items))))"

text \<open>
  The regular expression \<^verbatim>\<open>/if\((.+)\)/i\<close>. \<open>if_match_here\<close> matches it at the head
  of a text: \<^verbatim>\<open>if(\<close> in either case, then \<^verbatim>\<open>.+\<close>, which is greedy and takes no line
  break, up to the last \<^verbatim>\<open>)\<close> it can leave for \<^verbatim>\<open>\)\<close>; the result is the group and
  the length of the match. \<open>if_group\<close> is \<^verbatim>\<open>el.match(...)[1]\<close> at the leftmost match;
  \<open>if_remove\<close> is \<^verbatim>\<open>el.replace(/if\((.+)\)/ig, '')\<close>, its first argument the number of
  characters of a match still to drop.
\<close>

definition if_match_here :: "string \<Rightarrow> (string \<times> nat) option" where
  "if_match_here s =
     (case s of
        a # b # c # r \<Rightarrow>
          if a \<in> set ''iI'' \<and> b \<in> set ''fF'' \<and> c = CHR ''(''
          then (let line = takeWhile (\<lambda>x. x \<notin> set [CHR 0x0A, CHR 0x0D]) r;
                    closes = filter (\<lambda>j. line ! j = CHR '')'') [1..<length line]
                in if closes = [] then None
                   else Some (take (last closes) line, last closes + 4))
          else None
      | _ \<Rightarrow> None)"

fun if_group :: "string \<Rightarrow> string option" where
  "if_group [] = None"
| "if_group (c # cs) =
     (case if_match_here (c # cs) of Some (g, n) \<Rightarrow> Some g | None \<Rightarrow> if_group cs)"

fun if_remove :: "nat \<Rightarrow> string \<Rightarrow> string" where
  "if_remove k [] = []"
| "if_remove (Suc k) (c # cs) = if_remove k cs"
| "if_remove 0 (c # cs) =
     (case if_match_here (c # cs) of
        Some (g, n) \<Rightarrow> if_remove (n - 1) cs
      | None \<Rightarrow> c # if_remove 0 cs)"

text \<open>
  \<^verbatim>\<open>getFields\<close> (part_000, lines 332-412). \<open>field_source\<close> is the block under
  \<^verbatim>\<open>if (~el.indexOf('.'))\<close>: it gives \<open>(is_external, model, property_name)\<close>, where
  \<open>model\<close> stays the container's own data unless one of the three branches replaces
  it. \<open>field_entry\<close> is the callback of \<^verbatim>\<open>map\<close> on one key: \<open>None\<close> where the
  guard fails and nothing is written, else the output key and its value. An exception
  leaves \<^verbatim>\<open>getFields\<close> at once, after the diagnostics already written.
\<close>

definition field_source :: "model \<Rightarrow> container \<Rightarrow> string \<Rightarrow> diag list \<times> (error + bool \<times> jsval \<times> string)" where
  "field_source m c el =
     (let keys = first_segment (js_split '' '' el);
          splitted_keys = js_split ''.'' keys;
          property_name = last_segment splitted_keys;
          head = first_segment splitted_keys
      in if head = ''^'' \<or> head = ''&'' \<or> starts_with ''@'' head then
           (let model_path = middle_path splitted_keys
            in if starts_with ''@'' head then
                 (case getFieldFromContainer m (replace_first ''@'' [] head) model_path of
                    (ds, Inl e) \<Rightarrow> (ds, Inl e)
                  | (ds, Inr v) \<Rightarrow> (ds, Inr (True, v, property_name)))
               else if head = ''^'' \<and> truthy (parent m) then
                 (case fromDot (parent m) model_path of
                    Inl e \<Rightarrow> ([], Inl e)
                  | Inr v \<Rightarrow> ([], Inr (True, v, property_name)))
               else if head = ''&'' then
                 (case fromDot (Obj (this_view m)) model_path of
                    Inl e \<Rightarrow> ([], Inl e)
                  | Inr v \<Rightarrow> ([], Inr (True, v, property_name)))
               else ([], Inr (True, data c, property_name)))
         else ([], Inr (False, data c, property_name)))"

definition field_entry ::
  "js_evaluator \<Rightarrow> json_parser \<Rightarrow> model \<Rightarrow> container \<Rightarrow> string
     \<Rightarrow> (diag list \<times> (error + (string \<times> jsval) option)) option" where
  "field_entry Function_eval JSON_parse m c el =
     (case (case if_group el of
              Some cond \<Rightarrow> parseCondition Function_eval m cond
            | None \<Rightarrow> ([], Inr (Bool True))) of
        (ds0, Inl e) \<Rightarrow> Some (ds0, Inl e)
      | (ds0, Inr condition_result) \<Rightarrow>
          if truthy condition_result then
            (case (if CHR ''.'' \<in> set el
                   then (case field_source m c el of
                           (ds, Inl e) \<Rightarrow> (ds, Inl e)
                         | (ds, Inr (is_external, model, property_name)) \<Rightarrow>
                             (case get_prop model property_name of
                                Inl e \<Rightarrow>
                                  (ds @ (if truthy model then [] else [GetFields_field_not_found el]), Inl e)
                              | Inr external_value \<Rightarrow>
                                  (ds @ (if truthy model then [] else [GetFields_field_not_found el]),
                                   Inr (is_external, model, property_name, external_value, property_name))))
                   else ([], Inr (False, data c, el, Null, el))) of
               (ds1, Inl e) \<Rightarrow> Some (ds0 @ ds1, Inl e)
             | (ds1, Inr (is_external, model, property_name, external_value, field_name)) \<Rightarrow>
                 (let el_without_cond = js_trim (if_remove 0 el);
                      is_alias = js_includes '' as '' el_without_cond;
                      keys = js_split '' as '' el_without_cond;
                      property_name' = (if is_alias \<and> \<not> is_external then first_segment keys
                                        else property_name);
                      field_name' = (if is_alias then (case keys of k0 # k1 # ks \<Rightarrow> k1 | _ \<Rightarrow> ''undefined'')
                                     else field_name)
                  in case (if is_external then Inr external_value else get_prop model property_name') of
                       Inl e \<Rightarrow> Some (ds0 @ ds1, Inl e)
                     | Inr v \<Rightarrow>
                         (case map_of (fields' c) el of
                            None \<Rightarrow> Some (ds0 @ ds1, Inl TypeError)
                          | Some spec \<Rightarrow>
                              (case getProcessor m spec of
                                 None \<Rightarrow> None
                               | Some (Inl e) \<Rightarrow> Some (ds0 @ ds1, Inl e)
                               | Some (Inr proc_names) \<Rightarrow>
                                   (case createProcessorCallie JSON_parse m proc_names v of
                                      Inl e \<Rightarrow> Some (ds0 @ ds1, Inl e)
                                    | Inr r \<Rightarrow> Some (ds0 @ ds1, Inr (Some (field_name', r))))))))
          else Some (ds0, Inr None))"

fun getFields_loop ::
  "js_evaluator \<Rightarrow> json_parser \<Rightarrow> model \<Rightarrow> container \<Rightarrow> string list
     \<Rightarrow> diag list \<times> (string \<times> jsval) list
     \<Rightarrow> (diag list \<times> (error + (string \<times> jsval) list)) option" where
  "getFields_loop Function_eval JSON_parse m c [] (ds, result) = Some (ds, Inr result)"
| "getFields_loop Function_eval JSON_parse m c (el # els) (ds, result) =
     (case field_entry Function_eval JSON_parse m c el of
        None \<Rightarrow> None
      | Some (ds', Inl e) \<Rightarrow> Some (ds @ ds', Inl e)
      | Some (ds', Inr None) \<Rightarrow>
          getFields_loop Function_eval JSON_parse m c els (ds @ ds', result)
      | Some (ds', Inr (Some (field_name, v))) \<Rightarrow>
          getFields_loop Function_eval JSON_parse m c els (ds @ ds', AList.update field_name v result))"

definition getFields ::
  "js_evaluator \<Rightarrow> json_parser \<Rightarrow> model \<Rightarrow> string
     \<Rightarrow> (diag list \<times> (error + (string \<times> jsval) list)) option" where
  "getFields Function_eval JSON_parse m container_name =
     (case getContainer m container_name of
        Own c \<Rightarrow>
          if own_keys (fields' c) = [] then Some ([GetFields_no_field_names], Inr [])
          else getFields_loop Function_eval JSON_parse m c (own_keys (fields' c)) ([], [])
      | Inherited \<Rightarrow> Some ([], Inl TypeError)
      | Absent \<Rightarrow> Some ([], Inl TypeError))"

section \<open>The example's registrations\<close>

text \<open>
  The modifiers \<^verbatim>\<open>allow\<close> and \<^verbatim>\<open>default\<close> that the example model registers
  (bundle.js, lines 523-533). \<^verbatim>\<open>params.indexOf(value)\<close> is the search of an array by
  \<^verbatim>\<open>===\<close> or the search of a string for the text of the value; other parameters
  have no \<^verbatim>\<open>indexOf\<close>, and the call throws.
\<close>

fun allow_mod :: modifier where
  "allow_mod v (Arr xs) = Inr (Obj [(''break'', Bool (list_ex (\<lambda>x. strict_eq x v) xs))])"
| "allow_mod v (Str s) = Inr (Obj [(''break'', Bool (js_includes (js_to_string v) s))])"
| "allow_mod v (Boxed (Str s)) = Inr (Obj [(''break'', Bool (js_includes (js_to_string v) s))])"
| "allow_mod v p = Inl TypeError"

definition default_mod :: modifier where
  "default_mod v param = Inr (Obj [(''value'', js_or v param)])"

text \<open>
  Three of the processors that the constructor registers (part_000, lines 30-32).
\<close>

definition string_proc :: processor where
  "string_proc v =
     Inr (case v of Str s \<Rightarrow> Str s
          | _ \<Rightarrow> if \<not> truthy v then Str [] else Str (js_to_string v))"

definition array_proc :: processor where
  "array_proc v = Inr (case v of Arr xs \<Rightarrow> Arr xs | _ \<Rightarrow> Arr [])"

definition bool_proc :: processor where
  "bool_proc v = Inr (if truthy v then Bool True else Bool False)"

text \<open>
  Modelled from the spec: the processor \<^verbatim>\<open>double\<close> (\<open>x \<mapsto> x * 2\<close>) of the
  break-gated chain example, which the repository does not define. It is given on
  numbers; on another operand the host would coerce it first, and no statement below
  applies \<open>double\<close> there.
\<close>

fun double_proc :: processor where
  "double_proc (Num n) = Inr (Num (n * 2))"
| "double_proc (Boxed (Num n)) = Inr (Num (n * 2))"
| "double_proc v = Inr NaN"

definition example_model :: model where
  "example_model =
     \<lparr> processors = [''string'' \<mapsto> string_proc, ''array'' \<mapsto> array_proc,
                     ''bool'' \<mapsto> bool_proc, ''double'' \<mapsto> double_proc],
       modifiers = [''allow'' \<mapsto> allow_mod, ''default'' \<mapsto> default_mod],
       described_containers = Map.empty,
       containers = Map.empty,
       parent = Null,
       this_view = [] \<rparr>"

subsection \<open>A reader for parameter texts\<close>

text \<open>
  The \<^verbatim>\<open>JSON.parse\<close> of the examples. It reads \<^verbatim>\<open>null\<close>, \<^verbatim>\<open>true\<close>,
  \<^verbatim>\<open>false\<close>, integer literals, string literals without escapes, and arrays of
  these, with white space between them, as the host does; the parameter texts of the
  examples are of this kind. It is not the host's function on other JSON (objects,
  fractions, exponents, escapes), where it gives a SyntaxError, and no statement below
  reads such a text. The general statements hold for every parser. The first argument
  of \<open>read_value\<close> bounds the number of nested calls.
\<close>

definition json_ws :: "char \<Rightarrow> bool" where
  "json_ws c = (c \<in> set [CHR '' '', CHR 0x09, CHR 0x0A, CHR 0x0D])"

definition json_str_char :: "char \<Rightarrow> bool" where
  "json_str_char c = (c \<noteq> CHR 0x22 \<and> c \<noteq> CHR 0x5C \<and> 32 \<le> (of_char c :: nat))"

definition read_number :: "string \<Rightarrow> (jsval \<times> string) option" where
  "read_number s =
     (let neg = (s \<noteq> [] \<and> hd s = CHR ''-'');
          t = (if neg then tl s else s);
          ds = (if t \<noteq> [] \<and> hd t = CHR ''0'' then ''0'' else takeWhile is_digit t);
          r = drop (length ds) t
      in if ds = [] then None
         else if r \<noteq> [] \<and> hd r \<in> set [CHR ''.'', CHR ''e'', CHR ''E''] then None
         else Some (Num (if neg then - int (digits_value ds) else int (digits_value ds)), r))"

fun read_value :: "nat \<Rightarrow> string \<Rightarrow> (jsval \<times> string) option"
  and read_elems :: "nat \<Rightarrow> string \<Rightarrow> (jsval list \<times> string) option" where
  "read_value 0 cs = None"
| "read_value (Suc n) cs =
     (let s = dropWhile json_ws cs in
      if starts_with ''null'' s then Some (Null, drop 4 s)
      else if starts_with ''true'' s then Some (Bool True, drop 4 s)
      else if starts_with ''false'' s then Some (Bool False, drop 5 s)
      else (case s of
              [] \<Rightarrow> None
            | c # r \<Rightarrow>
                if c = CHR 0x22 then
                  (let body = takeWhile json_str_char r in
                   case drop (length body) r of
                     [] \<Rightarrow> None
                   | q # r' \<Rightarrow> if q = CHR 0x22 then Some (Str body, r') else None)
                else if c = CHR ''['' then
                  (case dropWhile json_ws r of
                     [] \<Rightarrow> None
                   | q # r' \<Rightarrow>
                       if q = CHR '']'' then Some (Arr [], r')
                       else (case read_elems n r of
                               None \<Rightarrow> None
                             | Some (xs, t) \<Rightarrow> Some (Arr xs, t)))
                else read_number s))"
| "read_elems 0 cs = None"
| "read_elems (Suc n) cs =
     (case read_value n cs of
        None \<Rightarrow> None
      | Some (v, r) \<Rightarrow>
          (case dropWhile json_ws r of
             [] \<Rightarrow> None
           | c # r' \<Rightarrow>
               if c = CHR '','' then
                 (case read_elems n r' of
                    None \<Rightarrow> None
                  | Some (vs, t) \<Rightarrow> Some (v # vs, t))
               else if c = CHR '']'' then Some ([v], r')
               else None))"

definition JSON_parse_basic :: json_parser where
  "JSON_parse_basic s =
     (case read_value (2 * length s + 2) s of
        None \<Rightarrow> Inl SyntaxError
      | Some (v, r) \<Rightarrow> if dropWhile json_ws r = [] then Inr v else Inl SyntaxError)"

subsection \<open>An evaluator for guards\<close>

text \<open>
  The \<^verbatim>\<open>Function\<close> of the examples. The note on \<^verbatim>\<open>parseCondition\<close> in the source
  says that a guard should only compare with the boolean values; this evaluator reads
  \<^verbatim>\<open>return a\<close>, \<^verbatim>\<open>return a == b\<close> and \<^verbatim>\<open>return a != b\<close> for the literals
  \<^verbatim>\<open>true\<close> and \<^verbatim>\<open>false\<close>, as the host does. It is not the host's function on other
  source text, where it gives a SyntaxError, and no statement below evaluates such a
  text. The general statements hold for every evaluator.
\<close>

definition bool_literal :: "string \<Rightarrow> bool option" where
  "bool_literal t = (if t = ''true'' then Some True else if t = ''false'' then Some False else None)"

definition Function_eval_basic :: js_evaluator where
  "Function_eval_basic src =
     (if starts_with ''return '' src then
        (case filter (\<lambda>t. t \<noteq> []) (js_split '' '' (drop 7 src)) of
           [a] \<Rightarrow> (case bool_literal a of Some x \<Rightarrow> Inr (Bool x) | None \<Rightarrow> Inl SyntaxError)
         | [a, op, b] \<Rightarrow>
             (case (bool_literal a, bool_literal b) of
                (Some x, Some y) \<Rightarrow>
                  if op = ''=='' then Inr (Bool (x = y))
                  else if op = ''!='' then Inr (Bool (x \<noteq> y))
                  else Inl SyntaxError
              | _ \<Rightarrow> Inl SyntaxError)
         | _ \<Rightarrow> Inl SyntaxError)
      else Inl SyntaxError)"

subsection \<open>Models for the examples\<close>

text \<open>Two templates \<open>A\<close> and \<open>B\<close>, which share the key \<open>y\<close>.\<close>

definition inherit_model :: model where
  "inherit_model = example_model\<lparr> described_containers :=
     [''A'' \<mapsto> [(''x'', ''bool''), (''y'', ''bool'')],
      ''B'' \<mapsto> [(''y'', ''string''), (''z'', ''array'')]] \<rparr>"

text \<open>The spec that the container \<open>c\<close> of a model returned by \<open>addContainer\<close> has for a key.\<close>

definition container_spec :: "diag list \<times> (error + model) \<Rightarrow> string \<Rightarrow> string \<Rightarrow> string option" where
  "container_spec r c k =
     (case r of
        (ds, Inr m) \<Rightarrow> (case containers m c of Some cont \<Rightarrow> map_of (fields' cont) k | None \<Rightarrow> None)
      | (ds, Inl e) \<Rightarrow> None)"


text \<open>
  A container \<open>c\<close> whose first field refers to a container \<open>missing\<close> that the model
  does not have, and whose second field is a plain own field.
\<close>

definition missing_ref_model :: model where
  "missing_ref_model = example_model\<lparr> containers :=
     [''c'' \<mapsto> \<lparr> name = ''c'',
                  fields' = [(''@missing.x'', ''string''), (''y'', ''string'')],
                  data = Obj [(''y'', Str ''v'')] \<rparr>] \<rparr>"

text \<open>A model with a container \<open>user\<close> and a property \<open>active\<close> of its own.\<close>

definition user_container :: container where
  "user_container = \<lparr> name = ''user'', fields' = [(''active'', ''bool'')],
                       data = Obj [(''active'', Bool True)] \<rparr>"

definition guard_model :: model where
  "guard_model = example_model\<lparr> containers := [''user'' \<mapsto> user_container],
                                this_view := [(''active'', Bool True)] \<rparr>"



text \<open>
  A container whose first field takes its chain from a container \<open>zz\<close> that the model
  does not have.
\<close>

definition dangling_model :: model where
  "dangling_model = example_model\<lparr> containers :=
     [''c'' \<mapsto> \<lparr> name = ''c'',
                  fields' = [(''y'', ''@zz.x''), (''z'', ''string'')],
                  data = Obj [(''y'', Str ''v''), (''z'', Num 5)] \<rparr>] \<rparr>"

section \<open>Properties of the string functions\<close>

lemma split_from_not_Nil: "split_from sep cur s \<noteq> []"
  by (induction sep cur s rule: split_from.induct) auto

lemma split_from_no_sep:
  "c \<notin> set s \<Longrightarrow> split_from [c] cur s = [cur @ s]"
  by (induction s arbitrary: cur) auto

lemma split_from_at_sep:
  "c \<notin> set a \<Longrightarrow> split_from [c] cur (a @ c # b) = (cur @ a) # split_from [c] [] b"
  by (induction a arbitrary: cur) auto


text \<open>A token \<^verbatim>\<open>a:b\<close> with no other \<^verbatim>\<open>:\<close> splits into its two sides.\<close>

lemma js_split_single:
  "c \<notin> set a \<Longrightarrow> c \<notin> set b \<Longrightarrow> js_split [c] (a @ c # b) = [a, b]"
  by (simp add: js_split_def split_from_at_sep split_from_no_sep)

section \<open>Properties of the registry reads\<close>

text \<open>An own property hides an inherited member of the same name.\<close>

lemma processor_lookup_own:
  "processors m nm = Some f \<Longrightarrow> processor_lookup m nm = Some f"
  by (simp add: processor_lookup_def)


lemma modifier_lookup_own:
  "modifiers m nm = Some f \<Longrightarrow> modifier_lookup m nm = Some f"
  by (simp add: modifier_lookup_def)

lemma modifier_lookup_nothing:
  "modifiers m nm = None \<Longrightarrow> nm \<notin> set Object_prototype_names \<Longrightarrow> modifier_lookup m nm = None"
  by (simp add: modifier_lookup_def)

lemma getContainer_own:
  "containers m nm = Some c \<Longrightarrow> getContainer m nm = Own c"
  by (simp add: getContainer_def)

lemma get_prop_object: "is_object x \<Longrightarrow> \<exists>v. get_prop x k = Inr v"
  by (cases x) (auto split: jsval.splits)

section \<open>Properties of the chain executor\<close>

lemma chain_run_append:
  "chain_run JSON_parse m (pre @ post) st =
     (case chain_run JSON_parse m pre st of
        Inl e \<Rightarrow> Inl e
      | Inr (Break acc) \<Rightarrow> Inr (Break acc)
      | Inr (Continue st') \<Rightarrow> chain_run JSON_parse m post st')"
  by (induction pre arbitrary: st) (auto split: sum.splits loop_ctl.splits)

text \<open>While the loop goes on, \<open>is_stop\<close> is still the \<^verbatim>\<open>false\<close> it started with.\<close>

lemma chain_step_keeps_flag:
  assumes "chain_step JSON_parse m tok (Bool False, acc) = Inr (Continue (s, a))"
  shows "s = Bool False"
  using assms
  by (auto simp: chain_step_def js_or_def Let_def
           split: if_splits list.splits sum.splits option.splits)

lemma chain_run_keeps_flag:
  "chain_run JSON_parse m toks (Bool False, d) = Inr (Continue (s, a)) \<Longrightarrow> s = Bool False"
proof (induction toks arbitrary: d)
  case Nil
  then show ?case by simp
next
  case (Cons tok toks)
  from Cons.prems obtain s' a' where
    st: "chain_step JSON_parse m tok (Bool False, d) = Inr (Continue (s', a'))"
    and run: "chain_run JSON_parse m toks (s', a') = Inr (Continue (s, a))"
    by (auto split: sum.splits loop_ctl.splits)
  from st have "s' = Bool False" by (rule chain_step_keeps_flag)
  with run Cons.IH show ?case by simp
qed

text \<open>
  What one registered modifier does to the loop state: the accumulator takes the
  \<^verbatim>\<open>value\<close> of the result when that is truthy and stays otherwise, and the loop
  ends when \<^verbatim>\<open>break\<close> is truthy.
\<close>

lemma registered_modifier_step:
  assumes "CHR '':'' \<in> set tok"
    and "js_split '':'' tok = mod_name # params_text # others"
    and "JSON_parse params_text = Inr mod_params"
    and "modifiers m mod_name = Some f"
    and "f acc mod_params = Inr mod_result"
    and "get_prop mod_result ''value'' = Inr v"
    and "get_prop mod_result ''break'' = Inr b"
  shows "chain_step JSON_parse m tok (Bool False, acc) =
           Inr (if truthy b then Break (if truthy v then v else acc)
                else Continue (Bool False, if truthy v then v else acc))"
  using assms by (simp add: chain_step_def js_or_def modifier_lookup_own)

text \<open>
  Claim C3. With the example's \<^verbatim>\<open>allow\<close> and a processor \<^verbatim>\<open>double\<close> registered,
  the chain \<^verbatim>\<open>"allow:[1,2].double"\<close> is said to give 3 on the input 3 and 4 on the
  input 2. It does not: \<^verbatim>\<open>allow\<close> signals \<^verbatim>\<open>break\<close> when the value is in the list.
\<close>

theorem allow_chain_claimed_results_fail:
  "\<not> (createProcessorCallie JSON_parse_basic example_model (Some ''allow:[1,2].double'') (Num 3)
          = Inr (Num 3)
      \<and> createProcessorCallie JSON_parse_basic example_model (Some ''allow:[1,2].double'') (Num 2)
          = Inr (Num 4))"
  by code_simp

text \<open>
  Claim C3, as the code has it: on the input 3, which is not in the list, no break is
  signalled and \<^verbatim>\<open>double\<close> runs, giving 6; on the input 2, which is in the list, the
  chain halts and gives 2 unchanged.
\<close>

theorem allow_chain_results:
  "createProcessorCallie JSON_parse_basic example_model (Some ''allow:[1,2].double'') (Num 3)
     = Inr (Num 6)
   \<and> createProcessorCallie JSON_parse_basic example_model (Some ''allow:[1,2].double'') (Num 2)
     = Inr (Num 2)"
  by code_simp

text \<open>
  Claim C4. A value that a registered modifier provides is said to replace the
  accumulator also when it is falsy. Here \<^verbatim>\<open>default\<close> with the parameter 0 provides
  the value 0 on the input \<^verbatim>\<open>undefined\<close>, and the accumulator stays \<^verbatim>\<open>undefined\<close>:
  \<^verbatim>\<open>acc = mod_result.value || acc\<close> keeps the old accumulator on every falsy value.
\<close>

theorem falsy_modifier_value_is_dropped:
  "default_mod Undefined (Num 0) = Inr (Obj [(''value'', Num 0)])
   \<and> createProcessorCallie JSON_parse_basic example_model (Some ''default:0'') Undefined
       = Inr Undefined"
  by code_simp

text \<open>
  Claim C7. Tokens run from left to right, and a modifier that signals \<^verbatim>\<open>break\<close> ends
  the chain at once with the current accumulator: when the tokens \<open>pre\<close> before a
  modifier token have run without a break and the modifier's result has a truthy
  \<^verbatim>\<open>break\<close>, the chain returns the accumulator as this modifier leaves it, whatever
  tokens \<open>rest\<close> follow.
\<close>

theorem break_halts_chain:
  assumes "js_split ''.'' names = pre @ tok # rest"
    and "chain_run JSON_parse m pre (Bool False, d) = Inr (Continue (is_stop, acc))"
    and "CHR '':'' \<in> set tok"
    and "js_split '':'' tok = mod_name # params_text # others"
    and "JSON_parse params_text = Inr mod_params"
    and "modifiers m mod_name = Some f"
    and "f acc mod_params = Inr mod_result"
    and "get_prop mod_result ''value'' = Inr v"
    and "get_prop mod_result ''break'' = Inr b"
    and "truthy b"
  shows "createProcessorCallie JSON_parse m (Some names) d = Inr (js_or v acc)"
proof -
  have step: "chain_step JSON_parse m tok (is_stop, acc) = Inr (Break (js_or v acc))"
    using assms(3-10) by (simp add: chain_step_def js_or_def modifier_lookup_own)
  have "chain_run JSON_parse m (pre @ tok # rest) (Bool False, d) = Inr (Break (js_or v acc))"
    using assms(2) step by (simp add: chain_run_append)
  then show ?thesis
    using assms(1) by (simp add: createProcessorCallie_def callie_def)
qed

text \<open>
  The chain \<^verbatim>\<open>"bool.allow:[true].double:{"\<close> on the input 2: \<^verbatim>\<open>allow\<close> breaks, and the
  last token, whose parameter text is not JSON, is never reached.
\<close>

theorem break_halts_chain_witness:
  "createProcessorCallie JSON_parse_basic example_model (Some ''bool.allow:[true].double:{'') (Num 2)
     = Inr (Bool True)"
proof -
  have h1: "js_split ''.'' ''bool.allow:[true].double:{''
              = [''bool''] @ ''allow:[true]'' # [''double:{'']"
    by code_simp
  have h2: "chain_run JSON_parse_basic example_model [''bool''] (Bool False, Num 2)
              = Inr (Continue (Bool False, Bool True))"
    by code_simp
  have h3: "CHR '':'' \<in> set ''allow:[true]''" by simp
  have h4: "js_split '':'' ''allow:[true]'' = ''allow'' # ''[true]'' # []" by code_simp
  have h5: "JSON_parse_basic ''[true]'' = Inr (Arr [Bool True])" by code_simp
  have h6: "modifiers example_model ''allow'' = Some allow_mod"
    by (simp add: example_model_def)
  have h7: "allow_mod (Bool True) (Arr [Bool True]) = Inr (Obj [(''break'', Bool True)])"
    by code_simp
  have h8: "get_prop (Obj [(''break'', Bool True)]) ''value'' = Inr Undefined" by code_simp
  have h9: "get_prop (Obj [(''break'', Bool True)]) ''break'' = Inr (Bool True)" by code_simp
  have h10: "truthy (Bool True)" by simp
  show ?thesis
    using break_halts_chain [OF h1 h2 h3 h4 h5 h6 h7 h8 h9 h10] by (simp add: js_or_def)
qed

section \<open>Properties of the processor-name resolver\<close>


text \<open>One step of indirection to a spec that is itself direct.\<close>

lemma getProcessor_one_step:
  assumes "CHR ''@'' \<in> set nm"
    and "getContainer m (first_segment (js_split ''.'' (replace_first ''@'' [] nm))) = Own c"
    and "map_of (fields' c) (last_segment (js_split ''.'' (replace_first ''@'' [] nm))) = Some spec"
    and "CHR ''@'' \<notin> set spec"
  shows "getProcessor m nm = Some (Inr (Some spec))"
  using assms by (subst getProcessor.simps) simp






section \<open>Properties of the extraction of one field\<close>

lemma if_remove_no_guard: "if_group el = None \<Longrightarrow> if_remove 0 el = el"
  by (induction el) (auto split: option.splits)

text \<open>
  A key without guard, dot and alias names an own field: the value read there goes
  through the chain that \<^verbatim>\<open>getProcessor\<close> gives for the spec of the key.
\<close>

lemma field_entry_plain:
  assumes "if_group el = None"
    and "CHR ''.'' \<notin> set el"
    and "\<not> js_includes '' as '' (js_trim el)"
    and "map_of (fields' c) el = Some spec"
    and "get_prop (data c) el = Inr v"
  shows "field_entry Function_eval JSON_parse m c el =
           (case getProcessor m spec of
              None \<Rightarrow> None
            | Some (Inl e) \<Rightarrow> Some ([], Inl e)
            | Some (Inr proc_names) \<Rightarrow>
                (case createProcessorCallie JSON_parse m proc_names v of
                   Inl e \<Rightarrow> Some ([], Inl e)
                 | Inr r \<Rightarrow> Some ([], Inr (Some (el, r)))))"
  using assms
  by (simp add: field_entry_def if_remove_no_guard Let_def split: option.splits sum.splits)

section \<open>Tokens that name nothing registered\<close>




text \<open>
  Claim C10. Every token \<^verbatim>\<open>name:params\<close> whose params are JSON and whose name is no
  registered modifier is said to do nothing. In \<^verbatim>\<open>nomod:"a:b"\<close> the params are the
  JSON text of a string, but the code splits the token at every \<^verbatim>\<open>:\<close> and parses the
  piece \<^verbatim>\<open>"a\<close>, which throws; in \<^verbatim>\<open>__proto__:[1]\<close> the name is not registered, but
  \<^verbatim>\<open>this.modifiers['__proto__']\<close> finds a value that is no function, and the call of it
  throws.
\<close>

theorem unregistered_modifier_token_throws:
  "JSON_parse_basic ([CHR 0x22] @ ''a:b'' @ [CHR 0x22]) = Inr (Str ''a:b'')
   \<and> modifiers example_model ''nomod'' = None
   \<and> createProcessorCallie JSON_parse_basic example_model
         (Some (''nomod:'' @ [CHR 0x22] @ ''a:b'' @ [CHR 0x22])) (Num 1)
       = Inl SyntaxError
   \<and> modifiers example_model ''__proto__'' = None
   \<and> createProcessorCallie JSON_parse_basic example_model (Some ''__proto__:[1]'') (Num 1)
       = Inl TypeError"
proof -
  have "modifiers example_model ''nomod'' = None"
    and "modifiers example_model ''__proto__'' = None"
    by (simp_all add: example_model_def)
  moreover have "JSON_parse_basic ([CHR 0x22] @ ''a:b'' @ [CHR 0x22]) = Inr (Str ''a:b'')"
    by code_simp
  moreover have "createProcessorCallie JSON_parse_basic example_model
         (Some (''nomod:'' @ [CHR 0x22] @ ''a:b'' @ [CHR 0x22])) (Num 1)
       = Inl SyntaxError"
    by code_simp
  moreover have "createProcessorCallie JSON_parse_basic example_model (Some ''__proto__:[1]'') (Num 1)
       = Inl TypeError"
    by code_simp
  ultimately show ?thesis by simp
qed

text \<open>
  Claim C10, as the code has it: the parameter text of a token is the piece between
  its first and its second \<^verbatim>\<open>:\<close>, which is what the code hands to \<^verbatim>\<open>JSON.parse\<close>.
  When that piece is JSON and the read \<^verbatim>\<open>this.modifiers[name]\<close> finds nothing,
  neither a registered modifier nor a member inherited from \<^verbatim>\<open>Object.prototype\<close>, the
  token does nothing: the accumulator stays, no break is signalled, and the chain runs
  as it would without the token. The executor writes no diagnostics at all.
\<close>

theorem unregistered_modifier_noop:
  assumes "CHR '':'' \<in> set tok"
    and "js_split '':'' tok = mod_name # params_text # others"
    and "JSON_parse params_text = Inr mod_params"
    and "modifiers m mod_name = None"
    and "mod_name \<notin> set Object_prototype_names"
  shows "chain_step JSON_parse m tok (Bool False, acc) = Inr (Continue (Bool False, acc))
       \<and> callie JSON_parse m (pre @ tok # rest) d = callie JSON_parse m (pre @ rest) d"
proof -
  have step: "\<And>a. chain_step JSON_parse m tok (Bool False, a) = Inr (Continue (Bool False, a))"
    using assms by (simp add: chain_step_def modifier_lookup_nothing)
  have "chain_run JSON_parse m (pre @ tok # rest) (Bool False, d)
        = chain_run JSON_parse m (pre @ rest) (Bool False, d)"
  proof (cases "chain_run JSON_parse m pre (Bool False, d)")
    case (Inl e)
    then show ?thesis by (simp add: chain_run_append)
  next
    case (Inr c)
    show ?thesis
    proof (cases c)
      case (Break a)
      with Inr show ?thesis by (simp add: chain_run_append)
    next
      case (Continue st)
      obtain s a where st: "st = (s, a)" by (cases st)
      with Inr Continue have "s = Bool False" by (auto dest: chain_run_keeps_flag)
      with Inr Continue st step show ?thesis by (simp add: chain_run_append)
    qed
  qed
  with step show ?thesis by (simp add: callie_def)
qed

theorem unregistered_modifier_noop_witness:
  "chain_step JSON_parse_basic example_model ''nomod:[1]'' (Bool False, Bool True)
     = Inr (Continue (Bool False, Bool True))
   \<and> callie JSON_parse_basic example_model [''bool'', ''nomod:[1]'', ''string''] (Num 1)
     = Inr (Str ''true'')"
proof -
  have h1: "CHR '':'' \<in> set ''nomod:[1]''" by simp
  have h2: "js_split '':'' ''nomod:[1]'' = ''nomod'' # ''[1]'' # []" by code_simp
  have h3: "JSON_parse_basic ''[1]'' = Inr (Arr [Num 1])" by code_simp
  have h4: "modifiers example_model ''nomod'' = None" by (simp add: example_model_def)
  have h5: "''nomod'' \<notin> set Object_prototype_names" by code_simp
  have h6: "callie JSON_parse_basic example_model ([''bool''] @ [''string'']) (Num 1)
              = Inr (Str ''true'')"
    by code_simp
  show ?thesis
    using unregistered_modifier_noop
            [where JSON_parse = JSON_parse_basic and m = example_model and acc = "Bool True"
               and pre = "[''bool'']" and rest = "[''string'']" and d = "Num 1",
             OF h1 h2 h3 h4 h5] h6
    by simp
qed

text \<open>
  Claim C9. For every spec with the \<^verbatim>\<open>@\<close> marker whose container is not registered,
  \<^verbatim>\<open>getProcessor\<close> is said to return \<^verbatim>\<open>undefined\<close>. No container \<open>constructor\<close> is
  registered, yet \<^verbatim>\<open>this.containers['constructor']\<close> finds the function that the
  registry object inherits; it is truthy and has no \<^verbatim>\<open>fields\<close>, and the read of a
  property of its \<^verbatim>\<open>fields\<close> throws.
\<close>

theorem inherited_container_name_throws:
  "containers example_model ''constructor'' = None
   \<and> getProcessor example_model ''@constructor.x'' = Some (Inl TypeError)"
proof -
  have "containers example_model ''constructor'' = None"
    by (simp add: example_model_def)
  moreover have "getProcessor example_model ''@constructor.x'' = Some (Inl TypeError)"
    by code_simp
  ultimately show ?thesis by simp
qed

text \<open>
  Claim C9, as the code has it: for a spec with the \<^verbatim>\<open>@\<close> marker on whose container
  name (the first segment, the marker removed) the read \<^verbatim>\<open>this.containers[name]\<close>
  finds nothing, neither a registered container nor a member inherited from
  \<^verbatim>\<open>Object.prototype\<close>, \<^verbatim>\<open>getProcessor\<close> returns \<^verbatim>\<open>undefined\<close>: not the input, not
  an error value. In \<^verbatim>\<open>getFields\<close> the chain compiler is then given this
  \<^verbatim>\<open>undefined\<close> and no fallback: \<^verbatim>\<open>names.split\<close> throws on it, which ends the
  extraction at a plain own field with such a spec.
\<close>

theorem getProcessor_unregistered_container:
  assumes "CHR ''@'' \<in> set nm"
    and "getContainer m (first_segment (js_split ''.'' (replace_first ''@'' [] nm))) = Absent"
  shows "getProcessor m nm = Some (Inr None)
       \<and> (if_group el = None \<and> CHR ''.'' \<notin> set el \<and> \<not> js_includes '' as '' (js_trim el)
            \<and> map_of (fields' c) el = Some nm \<and> is_object (data c)
          \<longrightarrow> field_entry Function_eval JSON_parse m c el = Some ([], Inl TypeError)
            \<and> getFields_loop Function_eval JSON_parse m c (el # els) (ds, result)
                = Some (ds, Inl TypeError))"
proof -
  have res: "getProcessor m nm = Some (Inr None)"
    using assms by (subst getProcessor.simps) simp
  have field: "field_entry Function_eval JSON_parse m c el = Some ([], Inl TypeError)"
    if "if_group el = None" "CHR ''.'' \<notin> set el" "\<not> js_includes '' as '' (js_trim el)"
      "map_of (fields' c) el = Some nm" "is_object (data c)"
  proof -
    from that(5) obtain v where v: "get_prop (data c) el = Inr v"
      using get_prop_object by blast
    with that res show ?thesis
      by (simp add: field_entry_plain createProcessorCallie_def)
  qed
  from res field show ?thesis by simp
qed

text \<open>
  The container of \<open>dangling_model\<close>: its field \<open>y\<close> takes its chain from a
  container \<open>zz\<close> that is not there, and the extraction ends with the TypeError.
\<close>

theorem getProcessor_unregistered_container_witness:
  "getProcessor dangling_model ''@zz.x'' = Some (Inr None)
   \<and> getFields Function_eval_basic JSON_parse_basic dangling_model ''c''
       = Some ([], Inl TypeError)"
proof -
  let ?c = "\<lparr> name = ''c'', fields' = [(''y'', ''@zz.x''), (''z'', ''string'')],
              data = Obj [(''y'', Str ''v''), (''z'', Num 5)] \<rparr>"
  have h1: "CHR ''@'' \<in> set ''@zz.x''" by simp
  have h2: "getContainer dangling_model
              (first_segment (js_split ''.'' (replace_first ''@'' [] ''@zz.x''))) = Absent"
    by code_simp
  have k: "if_group ''y'' = None \<and> CHR ''.'' \<notin> set ''y'' \<and> \<not> js_includes '' as '' (js_trim ''y'')
            \<and> map_of (fields' ?c) ''y'' = Some ''@zz.x'' \<and> is_object (data ?c)"
    by code_simp
  have start: "getFields Function_eval_basic JSON_parse_basic dangling_model ''c''
      = getFields_loop Function_eval_basic JSON_parse_basic dangling_model ?c (''y'' # [''z'']) ([], [])"
    by code_simp
  show ?thesis
    using getProcessor_unregistered_container
            [where JSON_parse = JSON_parse_basic and Function_eval = Function_eval_basic
               and c = ?c and el = "''y''" and els = "[''z'']" and ds = "[]" and result = "[]",
             OF h1 h2] k start
    by simp
qed

section \<open>Properties of the inheritance resolver\<close>

lemma map_of_obj_assign:
  "distinct (map fst s) \<Longrightarrow> map_of (obj_assign t s) = map_of t ++ map_of s"
proof (induction s arbitrary: t)
  case Nil
  then show ?case by (simp add: obj_assign_def)
next
  case (Cons p s)
  obtain k v where p: "p = (k, v)" by (cases p)
  from Cons.prems p have nk: "k \<notin> dom (map_of s)" and ds: "distinct (map fst s)"
    by (auto simp: dom_map_of_conv_image_fst)
  have "map_of (obj_assign t (p # s)) = map_of (obj_assign (AList.update k v t) s)"
    by (simp add: obj_assign_def p)
  also have "\<dots> = (map_of t)(k \<mapsto> v) ++ map_of s"
    using Cons.IH[OF ds, of "AList.update k v t"] by (simp only: update_conv')
  also have "\<dots> = map_of t ++ map_of (p # s)"
    using nk by (simp add: p map_add_upd_left)
  finally show ?case .
qed

lemma distinct_obj_assign:
  "distinct (map fst t) \<Longrightarrow> distinct (map fst (obj_assign t s))"
  by (induction s arbitrary: t) (auto simp: obj_assign_def distinct_update)

text \<open>
  Claim C1. For a container declared as \<^verbatim>\<open>"C extends [A,B]"\<close>, the container's own
  explicit fields are said to be layered last and to win every collision. They do
  not: \<open>C\<close> declares \<open>x\<close> as \<^verbatim>\<open>string\<close>, the template \<open>A\<close> declares it as
  \<^verbatim>\<open>bool\<close>, and the container gets \<^verbatim>\<open>bool\<close>.
\<close>

theorem own_field_loses_to_template:
  "container_spec
     (addContainer inherit_model ''C extends [A,B]'' [(''x'', ''string''), (''w'', ''array'')] Undefined)
     ''C'' ''x'' = Some ''bool''"
  by code_simp

text \<open>
  Claim C1, as the code has it: the templates are merged in the listed order, a later
  one overriding an earlier one, and \<^verbatim>\<open>Object.assign({}, fields, extended)\<close> then
  lays the merged templates over the container's own fields. For a key of \<open>B\<close> the
  container has \<open>B\<close>'s spec, else for a key of \<open>A\<close> it has \<open>A\<close>'s, and its own spec
  only for a key that neither template has.
\<close>

theorem templates_layer_over_own_fields:
  assumes "extends_clause full_name = Inr (Some (c, [a, b]))"
    and "described_containers m a = Some fa"
    and "described_containers m b = Some fb"
    and "distinct (map fst own)"
    and "distinct (map fst fa)"
    and "distinct (map fst fb)"
    and "truthy source \<longrightarrow> is_object source"
  shows "container_spec (addContainer m full_name own source) c k
           = (map_of own ++ map_of fa ++ map_of fb) k"
proof -
  let ?ext = "obj_assign (obj_assign [] (obj_assign (obj_assign [] []) fa)) fb"
  let ?flds = "obj_assign (obj_assign [] own) ?ext"
  have ext: "getExtendedFields m full_name = Inr (Some (c, ?ext))"
    using assms(1-3) by (simp add: getExtendedFields_def extend_with_def)
  have d_ext: "distinct (map fst ?ext)"
    by (intro distinct_obj_assign) simp
  have nil: "obj_assign [] [] = ([] :: (string \<times> string) list)"
    by (simp add: obj_assign_def)
  have d_fa: "distinct (map fst (obj_assign [] fa))"
    by (intro distinct_obj_assign) simp
  have m_ext: "map_of ?ext = map_of fa ++ map_of fb"
    using assms(5,6) d_fa by (simp add: map_of_obj_assign nil)
  have m_flds: "map_of ?flds = map_of own ++ map_of fa ++ map_of fb"
    using assms(4) d_ext m_ext by (simp add: map_of_obj_assign)
  obtain d where nc: "new_Container c ?flds source = Inr \<lparr> name = c, fields' = ?flds, data = d \<rparr>"
    and obj: "is_object d"
    using assms(7) by (cases "truthy source") (auto simp: new_Container_def)
  have "container_spec (addContainer m full_name own source) c k = map_of ?flds k"
    using ext nc obj
    by (simp add: addContainer_def setProxy_def getContainer_def container_spec_def)
  with m_flds show ?thesis by simp
qed

theorem templates_layer_over_own_fields_witness:
  "container_spec
     (addContainer inherit_model ''C extends [A,B]'' [(''x'', ''string''), (''w'', ''array'')] Undefined)
     ''C'' ''y'' = Some ''string''"
proof -
  have h1: "extends_clause ''C extends [A,B]'' = Inr (Some (''C'', [''A'', ''B'']))"
    by code_simp
  have h2: "described_containers inherit_model ''A'' = Some [(''x'', ''bool''), (''y'', ''bool'')]"
    by code_simp
  have h3: "described_containers inherit_model ''B'' = Some [(''y'', ''string''), (''z'', ''array'')]"
    by code_simp
  have h4: "distinct (map fst [(''x'', ''string''), (''w'', ''array'')])" by simp
  have h5: "distinct (map fst [(''x'', ''bool''), (''y'', ''bool'')])" by simp
  have h6: "distinct (map fst [(''y'', ''string''), (''z'', ''array'')])" by simp
  have h7: "truthy Undefined \<longrightarrow> is_object Undefined" by simp
  show ?thesis
    using templates_layer_over_own_fields [OF h1 h2 h3 h4 h5 h6 h7, of "''y''"] by simp
qed

section \<open>Properties of the extraction\<close>

text \<open>
  A piece of a condition whose first segment is none of \<^verbatim>\<open>^\<close>, \<^verbatim>\<open>&\<close> and
  \<^verbatim>\<open>@\<close> stays as it is; \<^verbatim>\<open>@name\<close> with a name is such a segment.
\<close>

lemma condition_item_other:
  assumes "first_segment (js_split ''.'' item) \<notin> {''^'', ''&'', ''@''}"
  shows "condition_item m item = ([], Inr (Str item))"
  using assms by (simp add: condition_item_def Let_def)

text \<open>
  A container that is not there gives the root \<^verbatim>\<open>null\<close> on the empty path and throws
  on any other path, so every field that refers to it ends the extraction with a
  TypeError.
\<close>

lemma fromDot_Null:
  "fromDot Null path = (if path = [] then Inr Null else Inl TypeError)"
proof (cases "js_split ''.'' path")
  case Nil
  then show ?thesis by (simp add: js_split_def split_from_not_Nil)
next
  case (Cons i rest)
  then show ?thesis by (simp add: fromDot_def)
qed

lemma getFieldFromContainer_missing:
  assumes "getContainer m cn = Absent"
  shows "getFieldFromContainer m cn path =
           ([GetFieldFromContainer_not_found cn], if path = [] then Inr Null else Inl TypeError)"
  using assms by (simp add: getFieldFromContainer_def fromDot_Null)

lemma missing_container_field_throws:
  assumes "if_group el = None"
    and "CHR ''.'' \<in> set el"
    and "starts_with ''@'' (first_segment (js_split ''.'' (first_segment (js_split '' '' el))))"
    and "getContainer m (replace_first ''@'' []
           (first_segment (js_split ''.'' (first_segment (js_split '' '' el))))) = Absent"
  shows "\<exists>ds. field_entry Function_eval JSON_parse m c el = Some (ds, Inl TypeError)"
proof -
  let ?keys = "js_split ''.'' (first_segment (js_split '' '' el))"
  let ?cn = "replace_first ''@'' [] (first_segment ?keys)"
  have src: "field_source m c el =
     (case getFieldFromContainer m ?cn (middle_path ?keys) of
        (ds, Inl e) \<Rightarrow> (ds, Inl e)
      | (ds, Inr v) \<Rightarrow> (ds, Inr (True, v, last_segment ?keys)))"
    using assms(3) by (simp add: field_source_def Let_def)
  show ?thesis
  proof (cases "middle_path ?keys = []")
    case True
    with src assms(4) have "field_source m c el =
        ([GetFieldFromContainer_not_found ?cn], Inr (True, Null, last_segment ?keys))"
      by (simp add: getFieldFromContainer_missing)
    with assms(1,2) show ?thesis by (simp add: field_entry_def)
  next
    case False
    with src assms(4) have "field_source m c el =
        ([GetFieldFromContainer_not_found ?cn], Inl TypeError)"
      by (simp add: getFieldFromContainer_missing)
    with assms(1,2) show ?thesis by (simp add: field_entry_def)
  qed
qed

text \<open>
  Claim C5. In the condition evaluator a piece \<^verbatim>\<open>@name.path.property\<close> is said to be
  replaced by the value in the named container's data. It is not: the test is
  \<^verbatim>\<open>splitted_keys[0] == '@'\<close>, which a first segment \<^verbatim>\<open>@user\<close> fails, so the piece
  goes to the host as it is written. \<^verbatim>\<open>getFields\<close> tests
  \<^verbatim>\<open>splitted_keys[0].indexOf('@') === 0\<close> and does read the container for the same
  reference, and a piece with \<^verbatim>\<open>&\<close> is replaced.
\<close>

theorem condition_container_reference_not_replaced:
  "condition_items guard_model (js_split '' '' ''@user.active == true'')
     = ([], Inr [Str ''@user.active'', Str ''=='', Str ''true''])
   \<and> parseCondition Function_eval guard_model ''@user.active == true''
     = ([], Function_eval ''return @user.active == true'')
   \<and> condition_items guard_model (js_split '' '' ''&.active == true'')
     = ([], Inr [Bool True, Str ''=='', Str ''true''])
   \<and> field_source guard_model user_container ''@user.active''
     = ([], Inr (True, Obj [(''active'', Bool True)], ''active''))"
  by code_simp

text \<open>
  Claim C2. A field that refers to a missing container is said to be reported and
  then treated as absent, the extraction going on to the other fields. The two
  reports are written, and then \<^verbatim>\<open>model[property_name]\<close> is read on \<^verbatim>\<open>null\<close>: the
  TypeError leaves \<^verbatim>\<open>getFields\<close>, and the field \<open>y\<close> after it is never extracted.
\<close>

theorem missing_container_aborts_extraction:
  "getFields Function_eval JSON_parse missing_ref_model ''c''
     = Some ([GetFieldFromContainer_not_found ''missing'',
              GetFields_field_not_found ''@missing.x''],
             Inl TypeError)"
  by code_simp

end
